theory Spec2Isabelle
  imports Complex_Main "HOL-Library.AList"
begin

section \<open>Python values used by \<open>bot.py\<close>\<close>

text \<open>
  The handlers of \<open>bot.py\<close> compute with Python integers (unbounded, here \<open>int\<close>) and
  Python floats (IEEE binary64).  A float is one of the finite binary64 values, kept as the
  real number it denotes, an infinity or a NaN.  The two zeros are one value: Python
  raises on a division by either, so the sign of a zero is never observed by this code.
  Every operation that raises in Python returns \<open>Inl\<close> of the exception.
\<close>

datatype error =
    ZeroDivisionError
  | OverflowError
  | ValueError
  | KeyError
  | ScoringError
  | TransactionError

datatype pyfloat = Fin real | PInf | NInf | NaN

text \<open>\<open>bit_length n\<close> is Python's \<open>n.bit_length()\<close> for \<open>n \<ge> 0\<close>.\<close>

function bit_length :: "int \<Rightarrow> int" where
  "bit_length n = (if n \<le> 0 then 0 else 1 + bit_length (n div 2))"
  by pat_completeness auto
termination
  by (relation "measure nat") auto

declare bit_length.simps [simp del]

definition pow2 :: "int \<Rightarrow> real" where
  "pow2 e = (if 0 \<le> e then 2 ^ nat e else 1 / 2 ^ nat (- e))"

text \<open>For \<open>x > 0\<close>, \<open>ilog2 x\<close> is the exponent \<open>e\<close> with \<open>2^e \<le> x < 2^(e+1)\<close>.\<close>

definition ilog2 :: "real \<Rightarrow> int" where
  "ilog2 x =
     (if 1 \<le> x then bit_length \<lfloor>x\<rfloor> - 1
      else (let k = bit_length \<lfloor>1 / x\<rfloor> - 1
            in if x * pow2 k = 1 then - k else - k - 1))"

definition round_half_even :: "real \<Rightarrow> int" where
  "round_half_even x =
     (let f = \<lfloor>x\<rfloor>; d = x - of_int f
      in if d < 1 / 2 then f else if 1 / 2 < d then f + 1
         else if even f then f else f + 1)"

text \<open>
  Rounding of an exact result to binary64, to nearest, ties to even: 53 significant bits
  for a normal result, multiples of \<open>2^-1074\<close> below \<open>2^-1022\<close>, an infinity when the
  rounded magnitude reaches \<open>2^1024\<close>.
\<close>

definition round64 :: "real \<Rightarrow> pyfloat" where
  "round64 x =
     (if x = 0 then Fin 0
      else (let a = \<bar>x\<bar>;
                e = max (ilog2 a) (- 1022);
                u = pow2 (e - 52);
                y = of_int (round_half_even (a / u)) * u
            in if pow2 1024 \<le> y then (if 0 < x then PInf else NInf)
               else Fin (if 0 < x then y else - y)))"

text \<open>\<open>x - y\<close> and \<open>x * y\<close> on floats: no exception, overflow gives an infinity.\<close>

fun fsub :: "pyfloat \<Rightarrow> pyfloat \<Rightarrow> pyfloat" where
  "fsub (Fin a) (Fin b) = round64 (a - b)"
| "fsub NaN y = NaN"
| "fsub x NaN = NaN"
| "fsub PInf PInf = NaN"
| "fsub NInf NInf = NaN"
| "fsub PInf y = PInf"
| "fsub NInf y = NInf"
| "fsub (Fin a) PInf = NInf"
| "fsub (Fin a) NInf = PInf"

fun fneg :: "pyfloat \<Rightarrow> pyfloat" where
  "fneg (Fin a) = Fin (- a)"
| "fneg PInf = NInf"
| "fneg NInf = PInf"
| "fneg NaN = NaN"

fun fmul :: "pyfloat \<Rightarrow> pyfloat \<Rightarrow> pyfloat" where
  "fmul (Fin a) (Fin b) = round64 (a * b)"
| "fmul NaN y = NaN"
| "fmul x NaN = NaN"
| "fmul (Fin a) y = (if a = 0 then NaN else if 0 < a then y else fneg y)"
| "fmul x (Fin b) = (if b = 0 then NaN else if 0 < b then x else fneg x)"
| "fmul PInf y = y"
| "fmul NInf y = fneg y"

text \<open>\<open>x / y\<close> on floats raises \<open>ZeroDivisionError\<close> when \<open>y == 0.0\<close>, whatever \<open>x\<close> is.\<close>

fun fdiv :: "pyfloat \<Rightarrow> pyfloat \<Rightarrow> error + pyfloat" where
  "fdiv x (Fin b) =
     (if b = 0 then Inl ZeroDivisionError
      else case x of
             Fin a \<Rightarrow> Inr (round64 (a / b))
           | NaN \<Rightarrow> Inr NaN
           | PInf \<Rightarrow> Inr (if 0 < b then PInf else NInf)
           | NInf \<Rightarrow> Inr (if 0 < b then NInf else PInf))"
| "fdiv x NaN = Inr NaN"
| "fdiv (Fin a) y = Inr (Fin 0)"
| "fdiv x y = Inr NaN"

text \<open>Comparisons: every comparison with a NaN is false.\<close>

fun fgt :: "pyfloat \<Rightarrow> pyfloat \<Rightarrow> bool" where
  "fgt (Fin a) (Fin b) = (b < a)"
| "fgt NaN y = False"
| "fgt x NaN = False"
| "fgt PInf PInf = False"
| "fgt PInf y = True"
| "fgt NInf y = False"
| "fgt (Fin a) PInf = False"
| "fgt (Fin a) NInf = True"

definition flt :: "pyfloat \<Rightarrow> pyfloat \<Rightarrow> bool" where
  "flt x y = fgt y x"

fun feq :: "pyfloat \<Rightarrow> pyfloat \<Rightarrow> bool" where
  "feq (Fin a) (Fin b) = (a = b)"
| "feq PInf PInf = True"
| "feq NInf NInf = True"
| "feq x y = False"

text \<open>
  An integer operand of a float operation is converted first; the conversion raises
  \<open>OverflowError\<close> when the integer is too large for a float.
\<close>

definition float_of_int :: "int \<Rightarrow> error + pyfloat" where
  "float_of_int n =
     (case round64 (of_int n) of Fin y \<Rightarrow> Inr (Fin y) | other \<Rightarrow> Inl OverflowError)"

text \<open>
  \<open>a / b\<close> on two integers: the correctly rounded quotient, \<open>ZeroDivisionError\<close> for
  \<open>b = 0\<close>, \<open>OverflowError\<close> when the quotient is too large for a float.
\<close>

definition int_truediv :: "int \<Rightarrow> int \<Rightarrow> error + pyfloat" where
  "int_truediv a b =
     (if b = 0 then Inl ZeroDivisionError
      else case round64 (of_int a / of_int b) of
             Fin y \<Rightarrow> Inr (Fin y)
           | other \<Rightarrow> Inl OverflowError)"

definition float_mul_int :: "pyfloat \<Rightarrow> int \<Rightarrow> error + pyfloat" where
  "float_mul_int x n =
     (case float_of_int n of Inl e \<Rightarrow> Inl e | Inr y \<Rightarrow> Inr (fmul x y))"

definition float_div_int :: "pyfloat \<Rightarrow> int \<Rightarrow> error + pyfloat" where
  "float_div_int x n =
     (case float_of_int n of Inl e \<Rightarrow> Inl e | Inr y \<Rightarrow> fdiv x y)"

text \<open>\<open>int(x)\<close> truncates towards zero; it raises on an infinity and on a NaN.\<close>

fun int_of_float :: "pyfloat \<Rightarrow> error + int" where
  "int_of_float (Fin a) = Inr (if 0 \<le> a then \<lfloor>a\<rfloor> else \<lceil>a\<rceil>)"
| "int_of_float NaN = Inl ValueError"
| "int_of_float PInf = Inl OverflowError"
| "int_of_float NInf = Inl OverflowError"

section \<open>The data model\<close>

type_synonym address = string

text \<open>The class \<open>Buy\<close>; \<open>bought_at\<close> is a timestamp in seconds.\<close>

record Buy =
  price :: pyfloat
  amount :: int
  bought_at :: int
  token_address :: address
  pair_address :: address

text \<open>
  \<open>bot.state.buys\<close>: a Python dict from symbol to \<open>Buy\<close>.  A dict keeps its keys in
  insertion order, and \<open>pnl\<close> pairs them with the results of the batched read by position,
  so the store is an association list: \<open>AList.update\<close> assigns (an existing key keeps its
  place, a new one goes last), \<open>AList.delete\<close> pops, \<open>map_of\<close> is \<open>get\<close>.  The keys of a
  dict are distinct.
\<close>

type_synonym buys = "(string \<times> Buy) list"

text \<open>The \<open>PairCreated\<close> log and the block a handler receives.\<close>

record PairCreated =
  token0 :: address
  token1 :: address
  pair :: address

record block =
  timestamp :: int

text \<open>The steps of a \<open>uniswap_sdk\<close> plan, in the order the handlers add them.\<close>

datatype recipient = ADDRESS_THIS | MSG_SENDER

datatype command =
    Wrap_eth recipient int
  | V2_swap_exact_in recipient int int "address list" bool
  | Approve_erc20 address address
  | Unwrap_weth recipient int

text \<open>
  \<open>router.execute\<close> either raises or returns a receipt, whose \<open>failed\<close> flag \<open>pnl\<close> reads.
\<close>

datatype tx_result = TxRaised | TxReceipt bool

text \<open>
  Everything outside the handlers is a collaborator.  A \<open>world\<close> holds the configuration
  (\<open>WETH\<close>, the signer) and the answers of the collaborators during one handler call: the
  chain reads answer, the sentiment request answers with the parsed float or raises,
  \<open>router.execute\<close> answers with a \<open>tx_result\<close>.  \<open>sentiment w name symbol\<close> stands for
  \<open>float(response.content[0].text)\<close> of the request made with that name and symbol.
\<close>

record world =
  WETH :: address
  signer :: "address option"
  signer_balance :: int
  now :: int
  symbol_of :: "address \<Rightarrow> string"
  decimals_of :: "address \<Rightarrow> nat"
  name_of :: "address \<Rightarrow> string"
  getReserves :: "address \<Rightarrow> int \<times> int \<times> int"
  sentiment :: "string \<Rightarrow> string \<Rightarrow> error + pyfloat"
  balanceOf :: "address \<Rightarrow> int"
  allowance :: "address \<Rightarrow> int"
  execute :: "command list \<Rightarrow> tx_result"

text \<open>
  What a handler does besides returning: its calls to the collaborators and its writes to
  \<open>bot.state.buys\<close>, in program order.  Console output is left out.
\<close>

datatype event =
    Call_symbol address
  | Call_decimals address
  | Call_name address
  | Call_getReserves address
  | Multicall "address list"
  | Call_sentiment string string
  | Call_balance
  | Call_balanceOf address
  | Call_allowance address
  | Send_approve address
  | Execute "command list" int "int option"
  | Insert string
  | Pop string

text \<open>
  The outcome of a handler call: what it returns (\<open>Inr None\<close> for a bare \<open>return\<close>,
  \<open>Inr (Some prices)\<close> for a returned dict, \<open>Inl\<close> for an exception that leaves the
  handler), \<open>bot.state.buys\<close> afterwards, and the events in order.
\<close>

type_synonym prices = "(string \<times> pyfloat) list"

record outcome =
  result :: "error + prices option"
  store :: buys
  trace :: "event list"

section \<open>The handler \<open>buy\<close>\<close>

text \<open>Line 77 and line 158: \<open>reserve0 / reserve1\<close>.\<close>

fun spot_price :: "int \<times> int \<times> int \<Rightarrow> error + pyfloat" where
  "spot_price (reserve0, reserve1, ts) = int_truediv reserve0 reserve1"

text \<open>Lines 107 to 141: the signer is configured.\<close>

definition buy_live ::
  "world \<Rightarrow> address \<Rightarrow> string \<Rightarrow> nat \<Rightarrow> address \<Rightarrow> pyfloat \<Rightarrow> pyfloat \<Rightarrow> buys \<Rightarrow>
   event list \<Rightarrow> outcome" where
  "buy_live w token symbol decimals pr current_price ratio st tr =
     (let tr1 = tr @ [Call_balance] in
      case float_mul_int ratio (signer_balance w) of
        Inl e \<Rightarrow> \<lparr>result = Inl e, store = st, trace = tr1\<rparr>
      | Inr x \<Rightarrow>
      (case int_of_float x of
        Inl e \<Rightarrow> \<lparr>result = Inl e, store = st, trace = tr1\<rparr>
      | Inr purchase_amount \<Rightarrow>
      (case float_mul_int (fmul (round64 (995 / 1000)) current_price) purchase_amount of
        Inl e \<Rightarrow> \<lparr>result = Inl e, store = st, trace = tr1\<rparr>
      | Inr y \<Rightarrow>
      (case int_of_float y of
        Inl e \<Rightarrow> \<lparr>result = Inl e, store = st, trace = tr1\<rparr>
      | Inr min_out \<Rightarrow>
         (let plan = [Wrap_eth ADDRESS_THIS purchase_amount,
                      V2_swap_exact_in MSG_SENDER purchase_amount min_out
                        [WETH w, token] False];
              deadline = now w + 120;
              tr2 = tr1 @ [Execute plan deadline (Some purchase_amount)]
          in case execute w plan of
               TxRaised \<Rightarrow> \<lparr>result = Inl TransactionError, store = st, trace = tr2\<rparr>
             | TxReceipt failed \<Rightarrow>
                (let token_balance = balanceOf w token;
                     tr3 = tr2 @ [Call_balanceOf token]
                 in case int_truediv token_balance (10 ^ decimals) of
                      Inl e \<Rightarrow> \<lparr>result = Inl e, store = st, trace = tr3\<rparr>
                    | Inr q \<Rightarrow>
                    (case float_div_int q purchase_amount of
                      Inl e \<Rightarrow> \<lparr>result = Inl e, store = st, trace = tr3\<rparr>
                    | Inr buy_price \<Rightarrow>
                       \<lparr>result = Inr (Some [(symbol, buy_price)]),
                        store = AList.update symbol
                          \<lparr>price = buy_price, amount = purchase_amount, bought_at = now w,
                           token_address = token, pair_address = pr\<rparr> st,
                        trace = tr3 @ [Insert symbol]\<rparr>)))))))"

text \<open>Lines 66 to 105, then \<open>buy_live\<close>.\<close>

definition buy :: "world \<Rightarrow> PairCreated \<Rightarrow> buys \<Rightarrow> outcome" where
  "buy w lg st =
     (if token0 lg \<noteq> WETH w then \<lparr>result = Inr None, store = st, trace = []\<rparr>
      else
        (let token = token1 lg;
             symbol = symbol_of w token;
             decimals = decimals_of w token;
             pr = pair lg;
             tr1 = [Call_symbol token, Call_decimals token, Call_getReserves pr]
         in case spot_price (getReserves w pr) of
              Inl e \<Rightarrow> \<lparr>result = Inl e, store = st, trace = tr1\<rparr>
            | Inr current_price \<Rightarrow>
               (let tr2 = tr1 @ [Call_name token, Call_sentiment (name_of w token) symbol]
                in case sentiment w (name_of w token) symbol of
                     Inl e \<Rightarrow> \<lparr>result = Inl e, store = st, trace = tr2\<rparr>
                   | Inr ratio \<Rightarrow>
                      if feq ratio (Fin 0) then \<lparr>result = Inr None, store = st, trace = tr2\<rparr>
                      else
                        (case signer w of
                           None \<Rightarrow>
                             \<lparr>result = Inr None,
                              store = AList.update symbol
                                \<lparr>price = current_price, amount = 10 ^ decimals,
                                 bought_at = now w, token_address = token,
                                 pair_address = pr\<rparr> st,
                              trace = tr2 @ [Insert symbol]\<rparr>
                         | Some account \<Rightarrow>
                             buy_live w token symbol decimals pr current_price ratio st
                               tr2))))"

section \<open>The handler \<open>pnl\<close>\<close>

text \<open>Line 162: \<open>(current_price - buy.price) / buy.price\<close>.\<close>

definition profit_or_loss :: "pyfloat \<Rightarrow> Buy \<Rightarrow> error + pyfloat" where
  "profit_or_loss current_price b = fdiv (fsub current_price (price b)) (price b)"

text \<open>
  Lines 157 to 169: the loop over the symbols zipped with the batched reserves, filling
  \<open>current_prices\<close>, \<open>tokens_to_swap\<close> and \<open>tokens_to_drop\<close>.
\<close>

fun pnl_scan ::
  "buys \<Rightarrow> (string \<times> int \<times> int \<times> int) list \<Rightarrow> prices \<Rightarrow> (string \<times> address) list \<Rightarrow>
   string list \<Rightarrow> error + prices \<times> (string \<times> address) list \<times> string list" where
  "pnl_scan st [] current_prices tokens_to_swap tokens_to_drop =
     Inr (current_prices, tokens_to_swap, tokens_to_drop)"
| "pnl_scan st ((symbol, reserves) # rest) current_prices tokens_to_swap tokens_to_drop =
     (case spot_price reserves of
        Inl e \<Rightarrow> Inl e
      | Inr current_price \<Rightarrow>
         (case map_of st symbol of
            None \<Rightarrow>
              pnl_scan st rest (AList.update symbol current_price current_prices)
                tokens_to_swap tokens_to_drop
          | Some b \<Rightarrow>
             (case profit_or_loss current_price b of
                Inl e \<Rightarrow> Inl e
              | Inr pl \<Rightarrow>
                 if fgt pl (round64 1000) then
                   pnl_scan st rest (AList.update symbol current_price current_prices)
                     (AList.update symbol (token_address b) tokens_to_swap) tokens_to_drop
                 else if flt pl (round64 99) then
                   pnl_scan st rest (AList.update symbol current_price current_prices)
                     tokens_to_swap (tokens_to_drop @ [symbol])
                 else
                   pnl_scan st rest (AList.update symbol current_price current_prices)
                     tokens_to_swap tokens_to_drop)))"

text \<open>Lines 171 and 172: \<open>pop\<close> raises \<open>KeyError\<close> on a symbol that is not a key.\<close>

fun drop_all :: "string list \<Rightarrow> buys \<Rightarrow> event list \<Rightarrow> (error + unit) \<times> buys \<times> event list" where
  "drop_all [] st tr = (Inr (), st, tr)"
| "drop_all (symbol # rest) st tr =
     (case map_of st symbol of
        None \<Rightarrow> (Inl KeyError, st, tr)
      | Some b \<Rightarrow> drop_all rest (AList.delete symbol st) (tr @ [Pop symbol]))"

text \<open>Lines 178 to 207: the loop that pops each symbol to sell and extends the plan.\<close>

fun close_all ::
  "world \<Rightarrow> (string \<times> address) list \<Rightarrow> command list \<Rightarrow> prices \<Rightarrow> buys \<Rightarrow> event list \<Rightarrow>
   (error + command list \<times> prices) \<times> buys \<times> event list" where
  "close_all w [] plan current_prices st tr = (Inr (plan, current_prices), st, tr)"
| "close_all w ((symbol, token) # rest) plan current_prices st tr =
     (case map_of st symbol of
        None \<Rightarrow> (Inl KeyError, st, tr)
      | Some b \<Rightarrow>
         (let st1 = AList.delete symbol st;
              tr1 = tr @ [Pop symbol, Call_balanceOf token]
          in if balanceOf w token = 0 then close_all w rest plan current_prices st1 tr1
             else
               (let token_balance = balanceOf w token;
                    tr2 = tr1 @ [Call_balanceOf token, Call_allowance (pair_address b)];
                    tr3 = (if allowance w (pair_address b) < token_balance
                           then tr2 @ [Send_approve (pair_address b)] else tr2)
                in case float_mul_int (round64 (95 / 100)) token_balance of
                     Inl e \<Rightarrow> (Inl e, st1, tr3)
                   | Inr x \<Rightarrow>
                   (case map_of current_prices symbol of
                     None \<Rightarrow> (Inl KeyError, st1, tr3)
                   | Some current_price \<Rightarrow>
                   (case fdiv x current_price of
                     Inl e \<Rightarrow> (Inl e, st1, tr3)
                   | Inr y \<Rightarrow>
                   (case int_of_float y of
                     Inl e \<Rightarrow> (Inl e, st1, tr3)
                   | Inr min_out \<Rightarrow>
                      close_all w rest
                        (plan @ [Approve_erc20 token (pair_address b),
                                 V2_swap_exact_in ADDRESS_THIS token_balance min_out
                                   [token, WETH w] True])
                        (AList.delete symbol current_prices) st1
                        (tr3 @ [Call_decimals token])))))))"

text \<open>Lines 209 to 225: the plan is completed and submitted.\<close>

definition submit ::
  "world \<Rightarrow> block \<Rightarrow> command list \<Rightarrow> prices \<Rightarrow> buys \<Rightarrow> event list \<Rightarrow> outcome" where
  "submit w blk plan0 current_prices st tr =
     (let plan = plan0 @ [Unwrap_weth MSG_SENDER 0];
          deadline = timestamp blk + 120;
          tr1 = tr @ [Call_balance, Execute plan deadline None]
      in case execute w plan of
           TxRaised \<Rightarrow> \<lparr>result = Inl TransactionError, store = st, trace = tr1\<rparr>
         | TxReceipt failed \<Rightarrow>
             if failed then \<lparr>result = Inl TransactionError, store = st, trace = tr1\<rparr>
             else \<lparr>result = Inr (Some current_prices), store = st,
                   trace = tr1 @ [Call_balance]\<rparr>)"

text \<open>The batched read of lines 150 to 157, as the list the loop runs over.\<close>

definition batch :: "world \<Rightarrow> buys \<Rightarrow> (string \<times> int \<times> int \<times> int) list" where
  "batch w st = zip (map fst st) (map (\<lambda>(symbol, b). getReserves w (pair_address b)) st)"

definition pnl :: "world \<Rightarrow> block \<Rightarrow> buys \<Rightarrow> outcome" where
  "pnl w blk st =
     (if length st = 0 then \<lparr>result = Inr None, store = st, trace = []\<rparr>
      else
        (let tr0 = [Multicall (map (\<lambda>(symbol, b). pair_address b) st)]
         in case pnl_scan st (batch w st) [] [] [] of
              Inl e \<Rightarrow> \<lparr>result = Inl e, store = st, trace = tr0\<rparr>
            | Inr (current_prices, tokens_to_swap, tokens_to_drop) \<Rightarrow>
               (case drop_all tokens_to_drop st tr0 of
                  (Inl e, st1, tr1) \<Rightarrow> \<lparr>result = Inl e, store = st1, trace = tr1\<rparr>
                | (Inr u, st1, tr1) \<Rightarrow>
                   if signer w = None \<or> tokens_to_swap = [] then
                     \<lparr>result = Inr (Some current_prices), store = st1, trace = tr1\<rparr>
                   else
                     (case close_all w tokens_to_swap [] current_prices st1 tr1 of
                        (Inl e, st2, tr2) \<Rightarrow> \<lparr>result = Inl e, store = st2, trace = tr2\<rparr>
                      | (Inr (plan, prices_left), st2, tr2) \<Rightarrow>
                          submit w blk plan prices_left st2 tr2))))"

section \<open>Notions used in the statements\<close>

text \<open>
  The profit-or-loss ratio of a position on a tick: the spot price of its pool, then line
  162.  A position is \<open>priced\<close> when both divisions succeed.  \<open>take_profit\<close> is the test of
  line 165, \<open>rug\<close> the test of line 168 (reached only when the first one fails).
\<close>

definition pnl_now :: "world \<Rightarrow> Buy \<Rightarrow> error + pyfloat" where
  "pnl_now w b =
     (case spot_price (getReserves w (pair_address b)) of
        Inl e \<Rightarrow> Inl e
      | Inr current_price \<Rightarrow> profit_or_loss current_price b)"

definition priced :: "world \<Rightarrow> Buy \<Rightarrow> bool" where
  "priced w b = (case pnl_now w b of Inl e \<Rightarrow> False | Inr pl \<Rightarrow> True)"

definition take_profit :: "world \<Rightarrow> Buy \<Rightarrow> bool" where
  "take_profit w b = (case pnl_now w b of Inl e \<Rightarrow> False | Inr pl \<Rightarrow> fgt pl (round64 1000))"

definition rug :: "world \<Rightarrow> Buy \<Rightarrow> bool" where
  "rug w b =
     (case pnl_now w b of
        Inl e \<Rightarrow> False
      | Inr pl \<Rightarrow> \<not> fgt pl (round64 1000) \<and> flt pl (round64 99))"

text \<open>
  What the loop of lines 157 to 169 leaves in \<open>current_prices\<close>, \<open>tokens_to_swap\<close> and
  \<open>tokens_to_drop\<close> when every position is priced (lemma \<open>scan_batch\<close> below), and the
  symbols of \<open>tokens_to_swap\<close> for which line 183 finds a balance, that is those for
  which lines 199 to 206 add a swap to the plan.
\<close>

definition quotes :: "world \<Rightarrow> buys \<Rightarrow> prices" where
  "quotes w st =
     concat (map (\<lambda>(symbol, b).
       case spot_price (getReserves w (pair_address b)) of
         Inl e \<Rightarrow> []
       | Inr current_price \<Rightarrow> [(symbol, current_price)]) st)"

definition takes :: "world \<Rightarrow> buys \<Rightarrow> (string \<times> address) list" where
  "takes w st = map (\<lambda>(symbol, b). (symbol, token_address b)) (filter (\<lambda>(symbol, b). take_profit w b) st)"

definition drops :: "world \<Rightarrow> buys \<Rightarrow> string list" where
  "drops w st = map fst (filter (\<lambda>(symbol, b). rug w b) st)"

definition sold :: "world \<Rightarrow> (string \<times> address) list \<Rightarrow> (string \<times> address) list" where
  "sold w sw = filter (\<lambda>(symbol, token). balanceOf w token \<noteq> 0) sw"

text \<open>
  \<open>is_execute\<close> recognises the submission of a plan; \<open>swap_tokens\<close> lists the tokens that
  the swaps of a plan sell.
\<close>

fun is_execute :: "event \<Rightarrow> bool" where
  "is_execute (Execute plan deadline v) = True"
| "is_execute e = False"

fun sold_token :: "command \<Rightarrow> address list" where
  "sold_token (V2_swap_exact_in r amount_in amount_out_min path payer_is_user) = take 1 path"
| "sold_token c = []"

definition swap_tokens :: "command list \<Rightarrow> address list" where
  "swap_tokens plan = concat (map sold_token plan)"


section \<open>Concrete worlds\<close>

text \<open>
  The inputs at which the theorems below are instantiated.  \<open>meme_created\<close> is a pair
  of the reference asset with a new token; \<open>monitoring_world\<close> has no signer, pool
  reserves 100 and 50,000 and a sentiment score of 0.1.
\<close>

definition meme_created :: PairCreated where
  "meme_created = \<lparr>token0 = ''0xWETH'', token1 = ''0xMEME'', pair = ''0xPAIR''\<rparr>"

definition dai_created :: PairCreated where
  "dai_created = \<lparr>token0 = ''0xDAI'', token1 = ''0xMEME'', pair = ''0xPAIR''\<rparr>"

definition monitoring_world :: world where
  "monitoring_world =
     \<lparr>WETH = ''0xWETH'', signer = None, signer_balance = 10, now = 1700000000,
      symbol_of = (\<lambda>a. ''MEME''), decimals_of = (\<lambda>a. 18), name_of = (\<lambda>a. ''Meme Coin''),
      getReserves = (\<lambda>a. (100, 50000, 0)),
      sentiment = (\<lambda>n s. Inr (round64 (1 / 10))),
      balanceOf = (\<lambda>a. 0), allowance = (\<lambda>a. 0), execute = (\<lambda>p. TxReceipt False)\<rparr>"

definition first_block :: block where
  "first_block = \<lparr>timestamp = 1700000012\<rparr>"

text \<open>\<open>dud_world\<close> has a signer, and its sentiment score is exactly 0.\<close>

definition dud_world :: world where
  "dud_world =
     monitoring_world\<lparr>signer := Some ''0xME'', sentiment := (\<lambda>n s. Inr (Fin 0))\<rparr>"

text \<open>
  Floats of the scenarios, by their exact values: \<open>entry_price\<close> is \<open>0.002\<close>,
  \<open>crash_quote\<close> is \<open>0.00001\<close> and \<open>crash_pnl\<close> is \<open>-0.995\<close>, \<open>moon_quote\<close> is \<open>2.2\<close> and
  \<open>moon_pnl\<close> is \<open>1099.0000000000002\<close>.
\<close>

definition entry_price :: pyfloat where
  "entry_price = Fin (1152921504606847 / 2 ^ 59)"

definition crash_quote :: pyfloat where
  "crash_quote = Fin (5902958103587057 / 2 ^ 69)"

definition crash_pnl :: pyfloat where
  "crash_pnl = Fin (- 8962163258467287 / 2 ^ 53)"

definition moon_quote :: pyfloat where
  "moon_quote = Fin (2476979795053773 / 2 ^ 50)"

definition moon_pnl :: pyfloat where
  "moon_pnl = Fin (4833453115703297 / 2 ^ 42)"

text \<open>
  \<open>meme_position\<close> is the position that \<open>buy\<close> records in \<open>monitoring_world\<close>.  In
  \<open>crash_world\<close> its pool has reserves 1 and 100,000, in \<open>moon_world\<close> 11 and 5; neither
  has a signer.  \<open>live_moon_world\<close> has a signer who holds 20 units of the token, and in
  \<open>failing_world\<close> the receipt of every transaction says that it failed.
\<close>

definition meme_position :: Buy where
  "meme_position =
     \<lparr>price = entry_price, amount = 10 ^ 18, bought_at = 1700000000,
      token_address = ''0xMEME'', pair_address = ''0xPAIR''\<rparr>"

definition crash_world :: world where
  "crash_world = monitoring_world\<lparr>getReserves := (\<lambda>a. (1, 100000, 0))\<rparr>"

definition moon_world :: world where
  "moon_world = monitoring_world\<lparr>getReserves := (\<lambda>a. (11, 5, 0))\<rparr>"

definition live_moon_world :: world where
  "live_moon_world = moon_world\<lparr>signer := Some ''0xME'', balanceOf := (\<lambda>a. 20)\<rparr>"

definition failing_world :: world where
  "failing_world = live_moon_world\<lparr>execute := (\<lambda>p. TxReceipt True)\<rparr>"

definition exit_plan :: "command list" where
  "exit_plan =
     [Approve_erc20 ''0xMEME'' ''0xPAIR'',
      V2_swap_exact_in ADDRESS_THIS 20 8 [''0xMEME'', ''0xWETH''] True,
      Unwrap_weth MSG_SENDER 0]"

text \<open>
  \<open>void_world\<close> has a second pool, with reserves 0 and 0, and \<open>two_positions\<close> holds a
  position on each pool.
\<close>

definition void_world :: world where
  "void_world =
     monitoring_world\<lparr>getReserves :=
       (\<lambda>a. if a = ''0xPAIR'' then (1, 100000, 0) else (0, 0, 0))\<rparr>"

definition two_positions :: buys where
  "two_positions =
     [(''MEME'', meme_position),
      (''VOID'', meme_position\<lparr>token_address := ''0xVOID'', pair_address := ''0xVOIDPAIR''\<rparr>)]"

text \<open>
  \<open>exit_world\<close> has a signer and three positions: \<open>MEME\<close> and \<open>GONE\<close> on pools with
  reserves 11 and 5, \<open>RUG\<close> on a pool with reserves 1 and 100,000.  The signer holds 20
  units of \<open>MEME\<close> and nothing of the other two tokens.
\<close>

definition exit_world :: world where
  "exit_world =
     live_moon_world
       \<lparr>getReserves := (\<lambda>a. if a = ''0xRUGPAIR'' then (1, 100000, 0) else (11, 5, 0)),
        balanceOf := (\<lambda>a. if a = ''0xMEME'' then 20 else 0)\<rparr>"

definition three_positions :: buys where
  "three_positions =
     [(''MEME'', meme_position),
      (''GONE'', meme_position\<lparr>token_address := ''0xGONE'', pair_address := ''0xGONEPAIR''\<rparr>),
      (''RUG'', meme_position\<lparr>token_address := ''0xRUG'', pair_address := ''0xRUGPAIR''\<rparr>)]"

text \<open>
  \<open>live_buy_world\<close> has a signer with a balance of 10, a sentiment score of 0.5, a token
  with 0 decimals whose pool has reserves 1 and 4, and a token balance of 20 after the
  trade.  \<open>purchased\<close> is the position that \<open>buy\<close> records there.
\<close>

definition live_buy_world :: world where
  "live_buy_world =
     monitoring_world
       \<lparr>signer := Some ''0xME'', signer_balance := 10, decimals_of := (\<lambda>a. 0),
        getReserves := (\<lambda>a. (1, 4, 0)), sentiment := (\<lambda>n s. Inr (Fin (1 / 2))),
        balanceOf := (\<lambda>a. 20)\<rparr>"

definition purchased :: Buy where
  "purchased =
     \<lparr>price = Fin 4, amount = 5, bought_at = 1700000000, token_address = ''0xMEME'',
      pair_address = ''0xPAIR''\<rparr>"

section \<open>Evaluating floats\<close>

lemma bit_length_nonpos: "n \<le> 0 \<Longrightarrow> bit_length n = 0"
  by (simp add: bit_length.simps)

lemma bit_length_pos: "0 < n \<Longrightarrow> bit_length n = 1 + bit_length (n div 2)"
  by (subst bit_length.simps) simp

lemmas ilog2_eval = ilog2_def pow2_def bit_length_nonpos bit_length_pos Let_def

text \<open>
  \<open>round64\<close> at a given argument, from its exponent \<open>e\<close> and its rounded significand \<open>m\<close>.
\<close>

lemma round64_at:
  assumes "x \<noteq> 0" and "ilog2 \<bar>x\<bar> = e" and "- 1022 \<le> e"
    and "round_half_even (\<bar>x\<bar> / pow2 (e - 52)) = m"
    and "of_int m * pow2 (e - 52) < pow2 1024"
    and "y = (if 0 < x then of_int m * pow2 (e - 52) else - (of_int m * pow2 (e - 52)))"
  shows "round64 x = Fin y"
proof -
  have m: "max (ilog2 \<bar>x\<bar>) (- 1022) = e" using assms(2,3) by simp
  have nle: "\<not> pow2 1024 \<le> of_int m * pow2 (e - 52)" using assms(5) by simp
  show ?thesis
    by (simp only: round64_def Let_def m assms(4) if_not_P [OF assms(1)] if_not_P [OF nle]
        assms(6))
qed

text \<open>
  The roundings that the scenarios need: the literals of the source, the spot prices, and
  each difference, quotient and product on the way to a profit-or-loss ratio or to a
  minimum output amount.
\<close>
lemma round64_1000: "round64 (1000) = Fin (1000)"
  by (rule round64_at [where e = 9 and m = 8796093022208000])
     (simp_all add: ilog2_eval round_half_even_def)

lemma round64_99: "round64 (99) = Fin (99)"
  by (rule round64_at [where e = 6 and m = 6966505673588736])
     (simp_all add: ilog2_eval round_half_even_def)

lemma round64_0_002: "round64 (1 / 500) = Fin (1152921504606847 / 576460752303423488)"
  by (rule round64_at [where e = "- 9" and m = 4611686018427388])
     (simp_all add: ilog2_eval round_half_even_def)

lemma round64_0_1: "round64 (1 / 10) = Fin (3602879701896397 / 36028797018963968)"
  by (rule round64_at [where e = "- 4" and m = 7205759403792794])
     (simp_all add: ilog2_eval round_half_even_def)

lemma round64_0_00001: "round64 (1 / 100000) = Fin (5902958103587057 / 590295810358705651712)"
  by (rule round64_at [where e = "- 17" and m = 5902958103587057])
     (simp_all add: ilog2_eval round_half_even_def)

lemma crash_difference: "round64 (- (1174688662613824271 / 590295810358705651712)) = Fin (- (4588627588335251 / 2305843009213693952))"
  by (rule round64_at [where e = "- 9" and m = 4588627588335251])
     (simp_all add: ilog2_eval round_half_even_def)

lemma crash_quotient: "round64 (- (4588627588335251 / 4611686018427388)) = Fin (- (8962163258467287 / 9007199254740992))"
  by (rule round64_at [where e = "- 1" and m = 8962163258467287])
     (simp_all add: ilog2_eval round_half_even_def)

lemma round64_2_2: "round64 (11 / 5) = Fin (2476979795053773 / 1125899906842624)"
  by (rule round64_at [where e = 1 and m = 4953959590107546])
     (simp_all add: ilog2_eval round_half_even_def)

lemma moon_difference: "round64 (1267060733562924929 / 576460752303423488) = Fin (309340999405011 / 140737488355328)"
  by (rule round64_at [where e = 1 and m = 4949455990480176])
     (simp_all add: ilog2_eval round_half_even_def)

lemma moon_quotient: "round64 (1267060733562925056 / 1152921504606847) = Fin (4833453115703297 / 4398046511104)"
  by (rule round64_at [where e = 10 and m = 4833453115703297])
     (simp_all add: ilog2_eval round_half_even_def)

lemma round64_0_95: "round64 (19 / 20) = Fin (4278419646001971 / 4503599627370496)"
  by (rule round64_at [where e = "- 1" and m = 8556839292003942])
     (simp_all add: ilog2_eval round_half_even_def)

lemma round64_20: "round64 (20) = Fin (20)"
  by (rule round64_at [where e = 4 and m = 5629499534213120])
     (simp_all add: ilog2_eval round_half_even_def)

lemma sell_product: "round64 (21392098230009855 / 1125899906842624) = Fin (19)"
  by (rule round64_at [where e = 4 and m = 5348024557502464])
     (simp_all add: ilog2_eval round_half_even_def)

lemma sell_quotient: "round64 (21392098230009856 / 2476979795053773) = Fin (4861840506820421 / 562949953421312)"
  by (rule round64_at [where e = 3 and m = 4861840506820421])
     (simp_all add: ilog2_eval round_half_even_def)

lemma round64_10: "round64 (10) = Fin (10)"
  by (rule round64_at [where e = 3 and m = 5629499534213120])
     (simp_all add: ilog2_eval round_half_even_def)

lemma round64_5: "round64 (5) = Fin (5)"
  by (rule round64_at [where e = 2 and m = 5629499534213120])
     (simp_all add: ilog2_eval round_half_even_def)

lemma round64_0_995: "round64 (199 / 200) = Fin (8962163258467287 / 9007199254740992)"
  by (rule round64_at [where e = "- 1" and m = 8962163258467287])
     (simp_all add: ilog2_eval round_half_even_def)

lemma round64_0_25: "round64 (1 / 4) = Fin (1 / 4)"
  by (rule round64_at [where e = "- 2" and m = 4503599627370496])
     (simp_all add: ilog2_eval round_half_even_def)

lemma slippage_product: "round64 (8962163258467287 / 36028797018963968) = Fin (8962163258467287 / 36028797018963968)"
  by (rule round64_at [where e = "- 3" and m = 8962163258467287])
     (simp_all add: ilog2_eval round_half_even_def)

lemma slippage_amount: "round64 (44810816292336435 / 36028797018963968) = Fin (2800676018271027 / 2251799813685248)"
  by (rule round64_at [where e = 0 and m = 5601352036542054])
     (simp_all add: ilog2_eval round_half_even_def)

lemma round64_4: "round64 (4) = Fin (4)"
  by (rule round64_at [where e = 2 and m = 4503599627370496])
     (simp_all add: ilog2_eval round_half_even_def)

lemmas float_facts =
  round64_1000 round64_99 round64_0_002 round64_0_1
  round64_0_00001 crash_difference crash_quotient round64_2_2
  moon_difference moon_quotient round64_0_95 round64_20
  sell_product sell_quotient round64_10 round64_5
  round64_0_995 round64_0_25 slippage_product slippage_amount
  round64_4

lemmas world_defs = monitoring_world_def crash_world_def moon_world_def live_moon_world_def
  failing_world_def void_world_def exit_world_def live_buy_world_def dud_world_def
  meme_created_def dai_created_def first_block_def

lemmas value_defs = entry_price_def crash_quote_def crash_pnl_def moon_quote_def moon_pnl_def
  meme_position_def two_positions_def three_positions_def purchased_def exit_plan_def

lemmas handler_eval = pnl_def batch_def submit_def buy_def buy_live_def profit_or_loss_def
  int_truediv_def float_of_int_def float_mul_int_def float_div_int_def flt_def Let_def

section \<open>Properties of \<open>buy\<close>\<close>

text \<open>
  C7: when the base asset of a pair-created event is not the configured reference asset,
  \<open>buy\<close> returns at once: the store is unchanged and there is no event at all, so no
  sentiment request and no transaction.
\<close>

theorem buy_other_base_no_effect:
  "token0 lg \<noteq> WETH w \<Longrightarrow> buy w lg st = \<lparr>result = Inr None, store = st, trace = []\<rparr>"
  by (simp add: buy_def)

theorem buy_other_base_no_effect_witness:
  "token0 dai_created \<noteq> WETH monitoring_world \<and>
   buy monitoring_world dai_created [] = \<lparr>result = Inr None, store = [], trace = []\<rparr>"
  using buy_other_base_no_effect [of dai_created monitoring_world "[]"]
  by (simp add: dai_created_def monitoring_world_def)

text \<open>
  C6: when the sentiment score of the token of a pair-created event is exactly 0, \<open>buy\<close>
  records no position, with or without a signer: the store is unchanged, nothing is
  inserted and no transaction is submitted.  The call ends with a bare \<open>return\<close>, or, for
  a pool whose reserves give no spot price, with the exception of line 77; it never
  returns a position.
\<close>

theorem buy_zero_score_no_position:
  assumes "sentiment w (name_of w (token1 lg)) (symbol_of w (token1 lg)) = Inr (Fin 0)"
  shows "store (buy w lg st) = st \<and>
         (result (buy w lg st) = Inr None \<or> result (buy w lg st) = Inl ZeroDivisionError \<or>
          result (buy w lg st) = Inl OverflowError) \<and>
         (\<forall>s. Insert s \<notin> set (trace (buy w lg st))) \<and>
         (\<forall>p d v. Execute p d v \<notin> set (trace (buy w lg st)))"
  using assms
  by (cases "getReserves w (pair lg)")
     (auto simp: buy_def Let_def int_truediv_def split: sum.splits pyfloat.splits)

theorem buy_zero_score_no_position_witness:
  "sentiment dud_world (name_of dud_world (token1 meme_created))
     (symbol_of dud_world (token1 meme_created)) = Inr (Fin 0) \<and>
   signer dud_world = Some ''0xME'' \<and>
   token0 meme_created = WETH dud_world \<and>
   store (buy dud_world meme_created []) = [] \<and>
   result (buy dud_world meme_created []) = Inr None"
  using buy_zero_score_no_position [of dud_world meme_created "[]"]
  by (simp add: dud_world_def monitoring_world_def meme_created_def buy_def int_truediv_def
      round64_0_002 Let_def)

text \<open>
  The sentiment request is made after the spot price is computed: an event reaches the
  sentiment gate only when it has passed the base-asset gate and its pool has a spot
  price.
\<close>

lemma buy_reaches_sentiment:
  assumes "Call_sentiment n s \<in> set (trace (buy w lg st))"
  shows "token0 lg = WETH w \<and> (\<exists>p. spot_price (getReserves w (pair lg)) = Inr p)"
  using assms
  by (cases "spot_price (getReserves w (pair lg))")
     (auto simp: buy_def Let_def split: if_splits)



text \<open>
  C3, as the code has it: when \<open>buy\<close> returns a price, a signer is configured, the score
  \<open>ratio\<close> is not 0, \<open>purchase_amount\<close> is \<open>int(ratio * balance)\<close> of the signer's balance
  (line 107), and the recorded and returned price is line 128:
  \<open>token_balance / 10 ** decimals / purchase_amount\<close>, where \<open>token_balance\<close> is the
  signer's balance of the token read after the trade.  This is the number of tokens per
  unit of the base asset spent, as the log line of lines 130 to 133 says
  (\<open>symbol/ETH\<close>), not the purchase amount divided by the tokens received.
\<close>

theorem buy_live_records:
  assumes "result (buy w lg st) = Inr (Some reported)"
  shows "\<exists>ratio x purchase_amount q buy_price b.
      token0 lg = WETH w \<and> signer w \<noteq> None \<and>
      sentiment w (name_of w (token1 lg)) (symbol_of w (token1 lg)) = Inr ratio \<and>
      \<not> feq ratio (Fin 0) \<and>
      float_mul_int ratio (signer_balance w) = Inr x \<and> int_of_float x = Inr purchase_amount \<and>
      int_truediv (balanceOf w (token1 lg)) (10 ^ decimals_of w (token1 lg)) = Inr q \<and>
      float_div_int q purchase_amount = Inr buy_price \<and>
      reported = [(symbol_of w (token1 lg), buy_price)] \<and>
      map_of (store (buy w lg st)) (symbol_of w (token1 lg)) = Some b \<and> price b = buy_price"
  using assms
  by (auto simp: buy_def buy_live_def Let_def update_conv'
      split: if_splits sum.splits option.splits tx_result.splits)

lemma buy_live_meme:
  "buy live_buy_world meme_created [] =
     \<lparr>result = Inr (Some [(''MEME'', Fin 4)]), store = [(''MEME'', purchased)],
      trace = [Call_symbol ''0xMEME'', Call_decimals ''0xMEME'', Call_getReserves ''0xPAIR'',
               Call_name ''0xMEME'', Call_sentiment ''Meme Coin'' ''MEME'', Call_balance,
               Execute [Wrap_eth ADDRESS_THIS 5,
                        V2_swap_exact_in MSG_SENDER 5 1 [''0xWETH'', ''0xMEME''] False]
                 1700000120 (Some 5),
               Call_balanceOf ''0xMEME'', Insert ''MEME'']\<rparr>"
  by (simp add: handler_eval world_defs value_defs float_facts)

theorem buy_live_records_witness:
  "result (buy live_buy_world meme_created []) = Inr (Some [(''MEME'', Fin 4)]) \<and>
   signer live_buy_world = Some ''0xME'' \<and>
   float_mul_int (Fin (1 / 2)) (signer_balance live_buy_world) = Inr (Fin 5) \<and>
   int_of_float (Fin 5) = Inr 5 \<and>
   int_truediv (balanceOf live_buy_world ''0xMEME'') (10 ^ 0) = Inr (Fin 20) \<and>
   float_div_int (Fin 20) 5 = Inr (Fin 4) \<and>
   map_of (store (buy live_buy_world meme_created [])) ''MEME'' = Some purchased \<and>
   price purchased = Fin 4"
  using buy_live_records [of live_buy_world meme_created "[]" "[(''MEME'', Fin 4)]"]
  by (simp add: buy_live_meme handler_eval world_defs value_defs float_facts)

text \<open>
  C3 as stated fails in \<open>live_buy_world\<close>: 5 units are spent and the signer holds 20
  tokens afterwards.  The purchase amount divided by the tokens received is
  \<open>5 / 20 = 0.25\<close>, and the tokens acquired are 20; the recorded position has the price
  \<open>20 / 1 / 5 = 4.0\<close> and the amount 5, the purchase amount.
\<close>

theorem buy_live_price_not_as_stated:
  "buy live_buy_world meme_created [] =
     \<lparr>result = Inr (Some [(''MEME'', Fin 4)]), store = [(''MEME'', purchased)],
      trace = [Call_symbol ''0xMEME'', Call_decimals ''0xMEME'', Call_getReserves ''0xPAIR'',
               Call_name ''0xMEME'', Call_sentiment ''Meme Coin'' ''MEME'', Call_balance,
               Execute [Wrap_eth ADDRESS_THIS 5,
                        V2_swap_exact_in MSG_SENDER 5 1 [''0xWETH'', ''0xMEME''] False]
                 1700000120 (Some 5),
               Call_balanceOf ''0xMEME'', Insert ''MEME'']\<rparr> \<and>
   balanceOf live_buy_world ''0xMEME'' = 20 \<and>
   int_truediv 5 20 = Inr (Fin (1 / 4)) \<and>
   price purchased = Fin 4 \<and>
   Inr (price purchased) \<noteq> int_truediv 5 20 \<and>
   amount purchased = 5 \<and>
   amount purchased \<noteq> balanceOf live_buy_world ''0xMEME''"
  by (simp add: handler_eval world_defs value_defs float_facts)

section \<open>The loops of \<open>pnl\<close>\<close>

text \<open>
  The store that the handlers build from the empty one of \<open>load_state\<close> keeps distinct
  keys, as a dict does.
\<close>

lemma drop_all_distinct:
  "drop_all ds st tr = (r, st', tr') \<Longrightarrow> distinct (map fst st) \<Longrightarrow> distinct (map fst st')"
  by (induction ds arbitrary: st tr) (auto simp: distinct_delete split: option.splits)

lemma close_all_distinct:
  "close_all w sw plan cp st tr = (r, st', tr') \<Longrightarrow> distinct (map fst st) \<Longrightarrow>
   distinct (map fst st')"
proof (induction sw arbitrary: plan cp st tr)
  case Nil
  then show ?case by simp
next
  case (Cons x rest)
  obtain s t where x: "x = (s, t)" by (cases x)
  have d: "distinct (map fst (AList.delete s st))" using Cons.prems(2) by (simp add: distinct_delete)
  show ?case
    using Cons.prems Cons.IH [OF _ d]
    by (auto simp: x Let_def distinct_delete split: option.splits if_splits sum.splits)
qed

lemma buy_distinct:
  "distinct (map fst st) \<Longrightarrow> distinct (map fst (store (buy w lg st)))"
  by (auto simp: buy_def buy_live_def Let_def distinct_update
      split: if_splits sum.splits option.splits tx_result.splits)

lemma submit_store: "store (submit w blk plan cp st tr) = st"
  by (auto simp: submit_def Let_def split: tx_result.splits)

lemma pnl_distinct:
  assumes "distinct (map fst st)"
  shows "distinct (map fst (store (pnl w blk st)))"
proof (cases "pnl_scan st (batch w st) [] [] []")
  case (Inl e)
  then show ?thesis using assms by (simp add: pnl_def)
next
  case (Inr r)
  obtain cp sw dr where r: "r = (cp, sw, dr)" by (cases r)
  let ?tr0 = "[Multicall (map (\<lambda>(symbol, b). pair_address b) st)]"
  obtain r1 st1 tr1 where dr: "drop_all dr st ?tr0 = (r1, st1, tr1)"
    by (cases "drop_all dr st ?tr0") auto
  have d1: "distinct (map fst st1)" using drop_all_distinct [OF dr assms] .
  obtain r2 st2 tr2 where ca: "close_all w sw [] cp st1 tr1 = (r2, st2, tr2)"
    by (cases "close_all w sw [] cp st1 tr1") auto
  have d2: "distinct (map fst st2)" using close_all_distinct [OF ca d1] .
  show ?thesis
    using assms Inr r dr ca d1 d2
    by (auto simp: pnl_def submit_store split: sum.splits prod.splits)
qed

text \<open>The scan over the batched reserves, when every position is priced.\<close>

lemma update_fresh: "k \<notin> fst ` set xs \<Longrightarrow> AList.update k v xs = xs @ [(k, v)]"
  by (induction xs) auto

lemma batch_Cons:
  "batch w ((s, b) # rest) = (s, getReserves w (pair_address b)) # batch w rest"
  by (simp add: batch_def)

lemma batch_Nil: "batch w [] = []"
  by (simp add: batch_def)

lemma quotes_Cons:
  "spot_price (getReserves w (pair_address b)) = Inr c \<Longrightarrow>
   quotes w ((s, b) # rest) = (s, c) # quotes w rest"
  by (simp add: quotes_def)

lemma keys_takes: "fst ` set (takes w st) \<subseteq> fst ` set st"
  by (force simp: takes_def)

lemma scan_batch:
  assumes "distinct (map fst st)"
  shows "set st' \<subseteq> set st \<Longrightarrow> distinct (map fst st') \<Longrightarrow> \<forall>(s, b) \<in> set st'. priced w b \<Longrightarrow>
     fst ` set cp \<inter> fst ` set st' = {} \<Longrightarrow> fst ` set sw \<inter> fst ` set st' = {} \<Longrightarrow>
     pnl_scan st (batch w st') cp sw dr =
       Inr (cp @ quotes w st', sw @ takes w st', dr @ drops w st')"
proof (induction st' arbitrary: cp sw dr)
  case Nil
  then show ?case by (simp add: batch_Nil quotes_def takes_def drops_def)
next
  case (Cons x rest)
  obtain s b where x: "x = (s, b)" by (cases x)
  from Cons.prems x have mem: "(s, b) \<in> set st" by auto
  with assms have look: "map_of st s = Some b" by simp
  from Cons.prems x have "priced w b" by auto
  then obtain c pl where c: "spot_price (getReserves w (pair_address b)) = Inr c"
    and pl: "profit_or_loss c b = Inr pl"
    by (auto simp: priced_def pnl_now_def split: sum.splits)
  have now: "pnl_now w b = Inr pl" by (simp add: pnl_now_def c pl)
  from Cons.prems x have fresh_cp: "s \<notin> fst ` set cp" and fresh_sw: "s \<notin> fst ` set sw"
    by auto
  from Cons.prems x have fresh_rest: "s \<notin> fst ` set rest" by auto
  have rest: "set rest \<subseteq> set st" "distinct (map fst rest)" "\<forall>(s, b) \<in> set rest. priced w b"
    using Cons.prems by auto
  have cp': "fst ` set (cp @ [(s, c)]) \<inter> fst ` set rest = {}"
    using Cons.prems x fresh_rest by auto
  have sw1: "fst ` set sw \<inter> fst ` set rest = {}"
    using Cons.prems x by auto
  have sw2: "fst ` set (sw @ [(s, token_address b)]) \<inter> fst ` set rest = {}"
    using sw1 fresh_rest by auto
  show ?case
  proof (cases "fgt pl (round64 1000)")
    case True
    then show ?thesis
      using Cons.IH [OF rest cp' sw2, of dr]
      by (simp add: x batch_Cons c pl look update_fresh fresh_cp fresh_sw quotes_Cons
          takes_def drops_def take_profit_def rug_def now)
  next
    case False
    show ?thesis
    proof (cases "flt pl (round64 99)")
      case True
      then show ?thesis
        using False Cons.IH [OF rest cp' sw1, of "dr @ [s]"]
        by (simp add: x batch_Cons c pl look update_fresh fresh_cp quotes_Cons
            takes_def drops_def take_profit_def rug_def now)
    next
      case nodrop: False
      then show ?thesis
        using False Cons.IH [OF rest cp' sw1, of dr]
        by (simp add: x batch_Cons c pl look update_fresh fresh_cp quotes_Cons
            takes_def drops_def take_profit_def rug_def now)
    qed
  qed
qed

lemma scan_priced:
  assumes "distinct (map fst st)"
  shows "pnl_scan st (batch w st') cp sw dr = Inr r \<Longrightarrow> set st' \<subseteq> set st \<Longrightarrow>
     \<forall>(s, b) \<in> set st'. priced w b"
proof (induction st' arbitrary: cp sw dr)
  case Nil
  then show ?case by simp
next
  case (Cons x rest)
  obtain s b where x: "x = (s, b)" by (cases x)
  from Cons.prems x have mem: "(s, b) \<in> set st" by auto
  with assms have look: "map_of st s = Some b" by simp
  from Cons.prems(1) obtain c where c: "spot_price (getReserves w (pair_address b)) = Inr c"
    by (auto simp: x batch_Cons split: sum.splits)
  from Cons.prems(1) obtain pl where pl: "profit_or_loss c b = Inr pl"
    by (auto simp: x batch_Cons c look split: sum.splits)
  have "priced w b" by (simp add: priced_def pnl_now_def c pl)
  moreover have "\<forall>(s, b) \<in> set rest. priced w b"
  proof -
    from Cons.prems(1) obtain cp' sw' dr' where "pnl_scan st (batch w rest) cp' sw' dr' = Inr r"
      by (auto simp: x batch_Cons c look pl split: if_splits)
    then show ?thesis using Cons.IH Cons.prems(2) by auto
  qed
  ultimately show ?case by (simp add: x)
qed

text \<open>The two loops that pop: \<open>drop_all\<close> and \<open>close_all\<close>.\<close>

lemma delete_filter: "AList.delete k xs = filter (\<lambda>(k', v). k' \<noteq> k) xs"
  by (induction xs) auto

lemma drop_all_ok:
  "distinct ds \<Longrightarrow> set ds \<subseteq> fst ` set st \<Longrightarrow>
   drop_all ds st tr = (Inr (), filter (\<lambda>(k, v). k \<notin> set ds) st, tr @ map Pop ds)"
proof (induction ds arbitrary: st tr)
  case Nil
  then show ?case by simp
next
  case (Cons s rest)
  from Cons.prems obtain b where look: "map_of st s = Some b"
    by (cases "map_of st s") (auto simp: map_of_eq_None_iff)
  have sub: "set rest \<subseteq> fst ` set (AList.delete s st)"
    using Cons.prems by (force simp: delete_filter)
  have "drop_all rest (AList.delete s st) (tr @ [Pop s]) =
      (Inr (), filter (\<lambda>(k, v). k \<notin> set rest) (AList.delete s st), (tr @ [Pop s]) @ map Pop rest)"
    using Cons.IH [OF _ sub] Cons.prems by simp
  moreover have "filter (\<lambda>(k, v). k \<notin> set rest) (AList.delete s st) =
      filter (\<lambda>(k, v). k \<notin> set (s # rest)) st"
    by (auto simp: delete_filter intro: filter_cong)
  ultimately show ?case by (simp add: look)
qed

lemma drop_all_no_execute:
  "drop_all ds st tr = (r, st', tr') \<Longrightarrow> filter is_execute tr' = filter is_execute tr"
  by (induction ds arbitrary: st tr) (auto split: option.splits)

lemma drops_distinct: "distinct (map fst st) \<Longrightarrow> distinct (drops w st)"
  by (simp add: drops_def distinct_map_filter)

lemma drops_keys: "set (drops w st) \<subseteq> fst ` set st"
  by (auto simp: drops_def)

lemma close_all_no_execute:
  "close_all w sw plan cp st tr = (r, st', tr') \<Longrightarrow>
   filter is_execute tr' = filter is_execute tr"
proof (induction sw arbitrary: plan cp st tr)
  case Nil
  then show ?case by simp
next
  case (Cons x rest)
  obtain s t where x: "x = (s, t)" by (cases x)
  show ?case
    using Cons.prems Cons.IH
    by (auto simp: x Let_def split: option.splits if_splits sum.splits)
qed

lemma close_all_extends:
  "close_all w sw plan cp st tr = (r, st', tr') \<Longrightarrow> \<exists>ev. tr' = tr @ ev"
proof (induction sw arbitrary: plan cp st tr)
  case Nil
  then show ?case by simp
next
  case (Cons x rest)
  obtain s t where x: "x = (s, t)" by (cases x)
  show ?case
    using Cons.prems Cons.IH
    by (fastforce simp: x Let_def split: option.splits if_splits sum.splits)
qed

lemma close_all_shrinks:
  "close_all w sw plan cp st tr = (r, st', tr') \<Longrightarrow> map_of st k = None \<Longrightarrow>
   map_of st' k = None"
proof (induction sw arbitrary: plan cp st tr)
  case Nil
  then show ?case by simp
next
  case (Cons x rest)
  obtain s t where x: "x = (s, t)" by (cases x)
  have del: "map_of (AList.delete s st) k = None"
    using Cons.prems(2) by (simp add: delete_conv')
  show ?case
    using Cons.prems Cons.IH [OF _ del]
    by (auto simp: x Let_def delete_conv' split: option.splits if_splits sum.splits)
qed



lemma close_all_prices:
  "close_all w sw plan cp st tr = (Inr (plan', cp'), st', tr') \<Longrightarrow>
   cp' = filter (\<lambda>(k, v). k \<notin> fst ` set (sold w sw)) cp"
proof (induction sw arbitrary: plan cp st tr)
  case Nil
  then show ?case by (simp add: sold_def)
next
  case (Cons x rest)
  obtain s0 t where x: "x = (s0, t)" by (cases x)
  show ?case
  proof (cases "balanceOf w t = 0")
    case True
    then obtain tr1 where
      "close_all w rest plan cp (AList.delete s0 st) tr1 = (Inr (plan', cp'), st', tr')"
      using Cons.prems by (auto simp: x Let_def split: option.splits)
    then show ?thesis using Cons.IH True by (simp add: x sold_def)
  next
    case False
    then obtain plan1 tr1 where
      "close_all w rest plan1 (AList.delete s0 cp) (AList.delete s0 st) tr1 =
         (Inr (plan', cp'), st', tr')"
      using Cons.prems by (auto simp: x Let_def split: option.splits if_splits sum.splits)
    then have "cp' = filter (\<lambda>(k, v). k \<notin> fst ` set (sold w rest)) (AList.delete s0 cp)"
      using Cons.IH by simp
    also have "\<dots> = filter (\<lambda>(k, v). k \<notin> fst ` set (sold w (x # rest))) cp"
      using False by (auto simp: x sold_def delete_filter intro: filter_cong)
    finally show ?thesis .
  qed
qed

lemma close_all_plan:
  "close_all w sw plan cp st tr = (Inr (plan', cp'), st', tr') \<Longrightarrow>
   swap_tokens plan' = swap_tokens plan @ map snd (sold w sw)"
proof (induction sw arbitrary: plan cp st tr)
  case Nil
  then show ?case by (simp add: sold_def)
next
  case (Cons x rest)
  obtain s0 t where x: "x = (s0, t)" by (cases x)
  show ?case
  proof (cases "balanceOf w t = 0")
    case True
    then obtain tr1 where
      "close_all w rest plan cp (AList.delete s0 st) tr1 = (Inr (plan', cp'), st', tr')"
      using Cons.prems by (auto simp: x Let_def split: option.splits)
    then show ?thesis using Cons.IH True by (simp add: x sold_def)
  next
    case False
    then obtain b n m cp1 tr1 where
      "close_all w rest
         (plan @ [Approve_erc20 t b, V2_swap_exact_in ADDRESS_THIS n m [t, WETH w] True])
         cp1 (AList.delete s0 st) tr1 = (Inr (plan', cp'), st', tr')"
      using Cons.prems by (auto simp: x Let_def split: option.splits if_splits sum.splits)
    then have "swap_tokens plan' =
        swap_tokens (plan @ [Approve_erc20 t b, V2_swap_exact_in ADDRESS_THIS n m [t, WETH w] True])
          @ map snd (sold w rest)"
      using Cons.IH by simp
    then show ?thesis using False by (simp add: x sold_def swap_tokens_def)
  qed
qed

text \<open>The handler on a store of priced positions.\<close>

lemma pnl_priced:
  assumes "distinct (map fst st)" and "st \<noteq> []" and "\<forall>(s, b) \<in> set st. priced w b"
  shows "pnl w blk st =
     (if signer w = None \<or> takes w st = [] then
        \<lparr>result = Inr (Some (quotes w st)),
         store = filter (\<lambda>(k, v). k \<notin> set (drops w st)) st,
         trace = Multicall (map (\<lambda>(symbol, b). pair_address b) st) # map Pop (drops w st)\<rparr>
      else
        (case close_all w (takes w st) [] (quotes w st)
                (filter (\<lambda>(k, v). k \<notin> set (drops w st)) st)
                (Multicall (map (\<lambda>(symbol, b). pair_address b) st) # map Pop (drops w st)) of
           (Inl e, st2, tr2) \<Rightarrow> \<lparr>result = Inl e, store = st2, trace = tr2\<rparr>
         | (Inr (plan, prices_left), st2, tr2) \<Rightarrow> submit w blk plan prices_left st2 tr2))"
proof -
  have scan: "pnl_scan st (batch w st) [] [] [] = Inr (quotes w st, takes w st, drops w st)"
    using scan_batch [OF assms(1), of st w "[]" "[]" "[]"] assms by simp
  have dr: "drop_all (drops w st) st [Multicall (map (\<lambda>(symbol, b). pair_address b) st)] =
      (Inr (), filter (\<lambda>(k, v). k \<notin> set (drops w st)) st,
       [Multicall (map (\<lambda>(symbol, b). pair_address b) st)] @ map Pop (drops w st))"
    by (rule drop_all_ok) (simp_all add: drops_distinct assms(1) drops_keys)
  show ?thesis
    using assms(2) by (simp add: pnl_def scan dr)
qed

lemma pnl_quiet:
  assumes "distinct (map fst st)" and "st \<noteq> []" and "\<forall>(s, b) \<in> set st. priced w b"
    and "signer w = None \<or> takes w st = []"
  shows "pnl w blk st =
        \<lparr>result = Inr (Some (quotes w st)),
         store = filter (\<lambda>(k, v). k \<notin> set (drops w st)) st,
         trace = Multicall (map (\<lambda>(symbol, b). pair_address b) st) # map Pop (drops w st)\<rparr>"
  by (simp only: pnl_priced [OF assms(1,2,3)] if_P [OF assms(4)])

lemma pnl_live:
  assumes "distinct (map fst st)" and "st \<noteq> []" and "\<forall>(s, b) \<in> set st. priced w b"
    and "\<not> (signer w = None \<or> takes w st = [])"
    and "close_all w (takes w st) [] (quotes w st)
           (filter (\<lambda>(k, v). k \<notin> set (drops w st)) st)
           (Multicall (map (\<lambda>(symbol, b). pair_address b) st) # map Pop (drops w st)) =
         (r, st2, tr2)"
  shows "pnl w blk st =
        (case r of
           Inl e \<Rightarrow> \<lparr>result = Inl e, store = st2, trace = tr2\<rparr>
         | Inr (plan, prices_left) \<Rightarrow> submit w blk plan prices_left st2 tr2)"
  by (cases r) (simp_all only: pnl_priced [OF assms(1,2,3)] if_not_P [OF assms(4)] assms(5)
      prod.case sum.case)

lemma flt_99_not_gt_1000: "flt pl (round64 99) \<Longrightarrow> \<not> fgt pl (round64 1000)"
  by (cases pl) (simp_all add: flt_def round64_99 round64_1000)

lemma submit_trace:
  "\<exists>plan' ev. trace (submit w blk plan cp st tr) = tr @ Call_balance # Execute plan' (timestamp blk + 120) None # ev
      \<and> plan' = plan @ [Unwrap_weth MSG_SENDER 0] \<and> (\<forall>e \<in> set ev. \<not> is_execute e)
      \<and> (\<forall>e \<in> set ev. e \<noteq> Pop s)"
  by (auto simp: submit_def Let_def split: tx_result.splits)

lemma no_execute_set: "filter is_execute tr = [] \<Longrightarrow> \<forall>e \<in> set tr. \<not> is_execute e"
  by (simp add: filter_empty_conv)




lemma submit_failed:
  assumes "Execute plan d v \<in> set (trace (submit w blk plan0 cp st tr))"
    and "\<forall>e \<in> set tr. \<not> is_execute e"
    and "execute w plan \<noteq> TxReceipt False"
  shows "result (submit w blk plan0 cp st tr) = Inl TransactionError"
proof -
  have "Execute plan d v \<notin> set tr" using assms(2) by force
  then have "plan = plan0 @ [Unwrap_weth MSG_SENDER 0]"
    using assms(1) by (auto simp: submit_def Let_def split: tx_result.splits if_splits)
  then show ?thesis
    using assms(3) by (cases "execute w plan") (auto simp: submit_def Let_def)
qed

lemma map_of_filter_keys:
  "map_of (filter (\<lambda>(k, v). P k) xs) s = (if P s then map_of xs s else None)"
  by (induction xs) auto

lemma quotes_lookup:
  assumes "distinct (map fst st)" and "(s, b) \<in> set st"
    and "spot_price (getReserves w (pair_address b)) = Inr c"
  shows "map_of (quotes w st) s = Some c"
  using assms
proof (induction st)
  case Nil
  then show ?case by simp
next
  case (Cons x rest)
  obtain s0 b0 where x: "x = (s0, b0)" by (cases x)
  show ?case
  proof (cases "s = s0")
    case True
    then have "b = b0" using Cons.prems x by (auto simp: image_iff)
    then show ?thesis using True Cons.prems(3) by (simp add: x quotes_def)
  next
    case False
    then have "(s, b) \<in> set rest" using Cons.prems x by auto
    then have "map_of (quotes w rest) s = Some c" using Cons.IH Cons.prems by simp
    then show ?thesis using False by (auto simp: x quotes_def split: sum.splits)
  qed
qed

lemma sold_keys:
  assumes "distinct (map fst st)" and "(s, b) \<in> set st"
  shows "s \<in> fst ` set (sold w (takes w st)) \<longleftrightarrow>
         take_profit w b \<and> balanceOf w (token_address b) \<noteq> 0"
proof
  assume "s \<in> fst ` set (sold w (takes w st))"
  then obtain b' where b': "(s, b') \<in> set st" "take_profit w b'" "balanceOf w (token_address b') \<noteq> 0"
    by (auto simp: sold_def takes_def)
  from assms b'(1) have "b = b'" by (meson eq_key_imp_eq_value)
  with b' show "take_profit w b \<and> balanceOf w (token_address b) \<noteq> 0" by simp
next
  assume "take_profit w b \<and> balanceOf w (token_address b) \<noteq> 0"
  then have "(s, token_address b) \<in> set (sold w (takes w st))"
    using assms(2) by (force simp: sold_def takes_def)
  then show "s \<in> fst ` set (sold w (takes w st))" by force
qed



lemma pnl_moon_failing:
  "pnl failing_world first_block [(''MEME'', meme_position)] =
     \<lparr>result = Inl TransactionError, store = [],
      trace = [Multicall [''0xPAIR''], Pop ''MEME'', Call_balanceOf ''0xMEME'',
               Call_balanceOf ''0xMEME'', Call_allowance ''0xPAIR'', Send_approve ''0xPAIR'',
               Call_decimals ''0xMEME'', Call_balance, Execute exit_plan 1700000132 None]\<rparr>"
  by (simp add: handler_eval world_defs value_defs float_facts)

lemma pnl_crash:
  "pnl crash_world first_block [(''MEME'', meme_position)] =
     \<lparr>result = Inr (Some [(''MEME'', crash_quote)]), store = [],
      trace = [Multicall [''0xPAIR''], Pop ''MEME'']\<rparr>"
  by (simp add: handler_eval world_defs value_defs float_facts)

lemma pnl_void:
  "pnl void_world first_block two_positions =
     \<lparr>result = Inl ZeroDivisionError, store = two_positions,
      trace = [Multicall [''0xPAIR'', ''0xVOIDPAIR'']]\<rparr>"
  by (simp add: handler_eval world_defs value_defs float_facts)

lemma pnl_exit:
  "pnl exit_world first_block three_positions =
     \<lparr>result = Inr (Some [(''GONE'', moon_quote), (''RUG'', crash_quote)]),
      store = [],
      trace = [Multicall [''0xPAIR'', ''0xGONEPAIR'', ''0xRUGPAIR''], Pop ''RUG'',
               Pop ''MEME'', Call_balanceOf ''0xMEME'',
               Call_balanceOf ''0xMEME'', Call_allowance ''0xPAIR'', Send_approve ''0xPAIR'',
               Call_decimals ''0xMEME'', Pop ''GONE'', Call_balanceOf ''0xGONE'',
               Call_balance, Execute exit_plan 1700000132 None, Call_balance]\<rparr>"
  by (simp add: handler_eval world_defs value_defs float_facts)


lemma pnl_now_crash:
  "getReserves w (pair_address b) = (1, 100000, t) \<Longrightarrow> price b = entry_price \<Longrightarrow>
   pnl_now w b = Inr crash_pnl"
  by (simp add: pnl_now_def handler_eval value_defs float_facts)


lemma crash_pnl_below: "flt crash_pnl (round64 99)"
  by (simp add: value_defs float_facts flt_def)

section \<open>Properties of \<open>pnl\<close>\<close>

text \<open>
  C8, as the code has it: on a tick with no open position \<open>pnl\<close> returns at once, with the
  bare \<open>return\<close> of line 148.  The store stays empty and there is no event, so no call to
  a collaborator; what is returned is \<open>None\<close>, not a price map.
\<close>

theorem pnl_empty_store_no_effect:
  "pnl w blk [] = \<lparr>result = Inr None, store = [], trace = []\<rparr>"
  by (simp add: pnl_def)

text \<open>
  C8 as stated asks for an empty price map, which is \<open>Inr (Some [])\<close>: the dict that the
  exits of lines 175 and 225 return.  On an empty store the handler returns \<open>None\<close>.
\<close>

theorem pnl_empty_store_returns_no_map:
  "result (pnl monitoring_world first_block []) = Inr None \<and>
   result (pnl monitoring_world first_block []) \<noteq> Inr (Some [])"
  by (simp add: pnl_def)




text \<open>
  C2, as the code has it: a position entered at \<open>0.002\<close> whose pool has reserves 1 and
  100,000, so a current price of \<open>0.00001\<close>, has the ratio \<open>crash_pnl\<close>, which is
  \<open>-0.995\<close>.  That is below \<open>99.0\<close> and not above \<open>1000.0\<close>: the test of line 168
  holds, and a tick on a store with this position alone pops it and reports its price.
\<close>

theorem pnl_crash_is_dropped:
  assumes "price b = round64 (2 / 1000)"
    and "getReserves w (pair_address b) = (1, 100000, t)"
  shows "pnl_now w b = Inr crash_pnl \<and> flt crash_pnl (round64 99) \<and>
         \<not> fgt crash_pnl (round64 1000) \<and>
         pnl w blk [(s, b)] =
           \<lparr>result = Inr (Some [(s, crash_quote)]), store = [],
            trace = [Multicall [pair_address b], Pop s]\<rparr>"
  using assms
  by (simp add: pnl_now_def handler_eval value_defs float_facts)

theorem pnl_crash_is_dropped_witness:
  "price meme_position = round64 (2 / 1000) \<and>
   getReserves crash_world (pair_address meme_position) = (1, 100000, 0) \<and>
   signer crash_world = None \<and>
   flt crash_pnl (round64 99) \<and>
   pnl crash_world first_block [(''MEME'', meme_position)] =
     \<lparr>result = Inr (Some [(''MEME'', crash_quote)]), store = [],
      trace = [Multicall [''0xPAIR''], Pop ''MEME'']\<rparr>"
  using pnl_crash_is_dropped [of meme_position crash_world 0 first_block "''MEME''"]
  by (simp add: world_defs value_defs float_facts)

text \<open>
  C2 as stated says that this ratio does not satisfy \<open>pnl < 99.0\<close> and that the position
  is neither marked for drop nor removed.  In \<open>crash_world\<close> the comparison holds, the
  position is a \<open>rug\<close>, it is popped and it is not in the store after the tick.
\<close>

theorem pnl_crash_not_kept:
  "pnl_now crash_world meme_position = Inr crash_pnl \<and>
   flt crash_pnl (round64 99) \<and>
   rug crash_world meme_position \<and>
   Pop ''MEME'' \<in> set (trace (pnl crash_world first_block [(''MEME'', meme_position)])) \<and>
   map_of (store (pnl crash_world first_block [(''MEME'', meme_position)])) ''MEME'' = None"
proof -
  have now: "pnl_now crash_world meme_position = Inr crash_pnl"
    by (rule pnl_now_crash [where t = 0]) (simp_all add: world_defs value_defs)
  have "\<not> fgt crash_pnl (round64 1000)"
    using flt_99_not_gt_1000 [OF crash_pnl_below] .
  then show ?thesis
    using now crash_pnl_below by (simp add: pnl_crash rug_def)
qed

text \<open>
  C4, as the code has it.  On a tick on which every open position is priced, a position
  whose ratio is below \<open>99.0\<close> is not in the store afterwards, with or without a signer,
  and its pop comes before the first submission of a plan, if there is one.
\<close>

theorem pnl_drops_rug:
  assumes "distinct (map fst st)" and "(s, b) \<in> set st"
    and "\<forall>(s', b') \<in> set st. priced w b'"
    and "pnl_now w b = Inr pl" and "flt pl (round64 99)"
  shows "map_of (store (pnl w blk st)) s = None \<and>
         Pop s \<in> set (takeWhile (\<lambda>e. \<not> is_execute e) (trace (pnl w blk st)))"
proof -
  let ?tr1 = "Multicall (map (\<lambda>(symbol, b). pair_address b) st) # map Pop (drops w st)"
  let ?st1 = "filter (\<lambda>(k, v). k \<notin> set (drops w st)) st"
  have ne: "st \<noteq> []" using assms(2) by auto
  have "rug w b" using assms(4,5) flt_99_not_gt_1000 [OF assms(5)] by (simp add: rug_def)
  then have sd: "s \<in> set (drops w st)" using assms(2) by (force simp: drops_def)
  have gone: "map_of ?st1 s = None"
    using sd by (auto simp: map_of_eq_None_iff)
  have pop1: "Pop s \<in> set ?tr1" using sd by simp
  have clean1: "filter is_execute ?tr1 = []"
    by (auto simp: filter_empty_conv)
  show ?thesis
  proof (cases "signer w = None \<or> takes w st = []")
    case True
    have tw: "takeWhile (\<lambda>e. \<not> is_execute e) ?tr1 = ?tr1"
      using no_execute_set [OF clean1] by (simp only: takeWhile_eq_all_conv)
    have t: "trace (pnl w blk st) = ?tr1" and s: "store (pnl w blk st) = ?st1"
      by (simp_all only: pnl_quiet [OF assms(1) ne assms(3) True] outcome.simps)
    show ?thesis
      using gone pop1 by (simp only: t s tw)
  next
    case False
    obtain r st2 tr2 where ca: "close_all w (takes w st) [] (quotes w st) ?st1 ?tr1 = (r, st2, tr2)"
      by (cases "close_all w (takes w st) [] (quotes w st) ?st1 ?tr1") auto
    note eq = pnl_live [OF assms(1) ne assms(3) False ca, of blk]
    have gone2: "map_of st2 s = None" using close_all_shrinks [OF ca gone] .
    obtain ev where ev: "tr2 = ?tr1 @ ev" using close_all_extends [OF ca] by auto
    have clean2: "\<forall>e \<in> set tr2. \<not> is_execute e"
      using close_all_no_execute [OF ca] clean1 by (simp add: filter_empty_conv)
    have pop2: "Pop s \<in> set tr2" using ev pop1 by simp
    show ?thesis
    proof (cases r)
      case (Inl e)
      have tw: "takeWhile (\<lambda>e. \<not> is_execute e) tr2 = tr2"
        using clean2 by (simp only: takeWhile_eq_all_conv)
      have t: "trace (pnl w blk st) = tr2" and s: "store (pnl w blk st) = st2"
        using eq Inl by simp_all
      show ?thesis
        using gone2 pop2 by (simp only: t s tw)
    next
      case (Inr pc)
      obtain plan cp where pc: "pc = (plan, cp)" by (cases pc)
      have eq': "pnl w blk st = submit w blk plan cp st2 tr2"
        using eq Inr pc by simp
      obtain plan' ev' where
        tr: "trace (submit w blk plan cp st2 tr2) =
               tr2 @ Call_balance # Execute plan' (timestamp blk + 120) None # ev'"
        using submit_trace [of w blk plan cp st2 tr2 s] by blast
      have "takeWhile (\<lambda>e. \<not> is_execute e) (trace (submit w blk plan cp st2 tr2)) =
          tr2 @ [Call_balance]"
        using clean2 by (simp add: tr takeWhile_append2)
      then show ?thesis using eq' gone2 pop2 by (simp add: submit_store)
    qed
  qed
qed

theorem pnl_drops_rug_witness:
  "distinct (map fst [(''MEME'', meme_position)]) \<and>
   priced crash_world meme_position \<and>
   pnl_now crash_world meme_position = Inr crash_pnl \<and>
   flt crash_pnl (round64 99) \<and>
   signer crash_world = None \<and>
   map_of (store (pnl crash_world first_block [(''MEME'', meme_position)])) ''MEME'' = None \<and>
   Pop ''MEME'' \<in> set (takeWhile (\<lambda>e. \<not> is_execute e)
     (trace (pnl crash_world first_block [(''MEME'', meme_position)])))"
proof -
  have now: "pnl_now crash_world meme_position = Inr crash_pnl"
    by (rule pnl_now_crash [where t = 0]) (simp_all add: world_defs value_defs)
  have pr: "\<forall>(s', b') \<in> set [(''MEME'', meme_position)]. priced crash_world b'"
    by (simp add: priced_def now)
  have "signer crash_world = None" by (simp add: world_defs)
  then show ?thesis
    using pnl_drops_rug [OF _ _ pr now crash_pnl_below, of "''MEME''" first_block]
      now crash_pnl_below
    by (simp add: priced_def)
qed

text \<open>
  C4 as stated fails when the scan does not complete.  In \<open>void_world\<close> the first
  position has a ratio below \<open>99.0\<close>; the second pool has reserves 0 and 0, so line 158
  raises \<open>ZeroDivisionError\<close> for it, and the handler ends before the loop of line 171:
  the first position is still in the store.
\<close>

theorem pnl_scan_error_keeps_rug:
  "map_of two_positions ''MEME'' = Some meme_position \<and>
   pnl_now void_world meme_position = Inr crash_pnl \<and>
   flt crash_pnl (round64 99) \<and>
   result (pnl void_world first_block two_positions) = Inl ZeroDivisionError \<and>
   map_of (store (pnl void_world first_block two_positions)) ''MEME'' = Some meme_position \<and>
   trace (pnl void_world first_block two_positions) = [Multicall [''0xPAIR'', ''0xVOIDPAIR'']]"
proof -
  have "pnl_now void_world meme_position = Inr crash_pnl"
    by (rule pnl_now_crash [where t = 0]) (simp_all add: world_defs value_defs)
  then show ?thesis
    using crash_pnl_below by (simp add: pnl_void) (simp add: two_positions_def)
qed

text \<open>
  C9: when a plan has been submitted by \<open>pnl\<close> and \<open>router.execute\<close> raised, or returned
  a receipt that says the transaction failed, the handler ends with the exception; it
  does not return.
\<close>

theorem pnl_failed_exit_raises:
  assumes "Execute plan d v \<in> set (trace (pnl w blk st))"
    and "execute w plan \<noteq> TxReceipt False"
  shows "result (pnl w blk st) = Inl TransactionError"
proof -
  let ?tr0 = "[Multicall (map (\<lambda>(symbol, b). pair_address b) st)]"
  have ne: "length st \<noteq> 0" using assms(1) by (auto simp: pnl_def)
  show ?thesis
  proof (cases "pnl_scan st (batch w st) [] [] []")
    case (Inl e)
    then have "trace (pnl w blk st) = ?tr0" using ne by (simp add: pnl_def)
    with assms(1) show ?thesis by simp
  next
    case (Inr r)
    obtain cp sw dr where r: "r = (cp, sw, dr)" by (cases r)
    obtain r1 st1 tr1 where dr: "drop_all dr st ?tr0 = (r1, st1, tr1)"
      by (cases "drop_all dr st ?tr0") auto
    have clean1: "\<forall>e \<in> set tr1. \<not> is_execute e"
      using drop_all_no_execute [OF dr] by (simp add: filter_empty_conv)
    then have no1: "Execute plan d v \<notin> set tr1" by force
    show ?thesis
    proof (cases r1)
      case (Inl e)
      then have "trace (pnl w blk st) = tr1" using ne Inr r dr by (simp add: pnl_def)
      with assms(1) no1 show ?thesis by simp
    next
      case ok: (Inr u)
      show ?thesis
      proof (cases "signer w = None \<or> sw = []")
        case True
        then have "trace (pnl w blk st) = tr1" using ne Inr r dr ok by (auto simp: pnl_def)
        with assms(1) no1 show ?thesis by simp
      next
        case False
        obtain r2 st2 tr2 where ca: "close_all w sw [] cp st1 tr1 = (r2, st2, tr2)"
          by (cases "close_all w sw [] cp st1 tr1") auto
        have clean2: "\<forall>e \<in> set tr2. \<not> is_execute e"
          using close_all_no_execute [OF ca] clean1 by (simp add: filter_empty_conv)
        then have no2: "Execute plan d v \<notin> set tr2" by force
        show ?thesis
        proof (cases r2)
          case (Inl e)
          then have "trace (pnl w blk st) = tr2"
            using ne Inr r dr ok False ca by (auto simp: pnl_def)
          with assms(1) no2 show ?thesis by simp
        next
          case (Inr pc)
          obtain plan0 cp' where pc: "pc = (plan0, cp')" by (cases pc)
          have eq: "pnl w blk st = submit w blk plan0 cp' st2 tr2"
            using ne \<open>pnl_scan st (batch w st) [] [] [] = Inr r\<close> r dr ok False ca Inr pc
            by (auto simp: pnl_def)
          show ?thesis
            using submit_failed [OF _ clean2 assms(2), of d v blk plan0 cp' st2] assms(1)
            by (simp add: eq)
        qed
      qed
    qed
  qed
qed

theorem pnl_failed_exit_raises_witness:
  "Execute exit_plan 1700000132 None
     \<in> set (trace (pnl failing_world first_block [(''MEME'', meme_position)])) \<and>
   execute failing_world exit_plan = TxReceipt True \<and>
   result (pnl failing_world first_block [(''MEME'', meme_position)]) = Inl TransactionError"
  using pnl_failed_exit_raises
    [of exit_plan 1700000132 None failing_world first_block "[(''MEME'', meme_position)]"]
  by (simp add: pnl_moon_failing) (simp add: world_defs)

text \<open>
  C10: with a signer and a non-empty profit-take set, when \<open>pnl\<close> returns a price map,
  a plan was submitted whose swaps sell exactly the tokens of \<open>sold\<close>, the profit-take
  positions with a balance.  The returned map is \<open>quotes\<close> without the symbols of \<open>sold\<close>:
  for every position of the store it has no entry when the position was sold, and the
  position's current price otherwise, so also when the position was dropped or skipped
  for a balance of 0.
\<close>

theorem pnl_returned_prices:
  assumes "distinct (map fst st)" and "signer w \<noteq> None" and "takes w st \<noteq> []"
    and "result (pnl w blk st) = Inr (Some reported)"
  shows "pnl_scan st (batch w st) [] [] [] = Inr (quotes w st, takes w st, drops w st) \<and>
         (\<exists>plan d v. Execute plan d v \<in> set (trace (pnl w blk st)) \<and>
            swap_tokens plan = map snd (sold w (takes w st))) \<and>
         reported = filter (\<lambda>(k, v). k \<notin> fst ` set (sold w (takes w st))) (quotes w st) \<and>
         (\<forall>(s, b) \<in> set st.
            \<exists>c. spot_price (getReserves w (pair_address b)) = Inr c \<and>
              map_of reported s =
                (if take_profit w b \<and> balanceOf w (token_address b) \<noteq> 0 then None else Some c))"
proof -
  let ?tr1 = "Multicall (map (\<lambda>(symbol, b). pair_address b) st) # map Pop (drops w st)"
  let ?st1 = "filter (\<lambda>(k, v). k \<notin> set (drops w st)) st"
  have ne: "st \<noteq> []" using assms(3) by (auto simp: takes_def)
  obtain r where scan_ok: "pnl_scan st (batch w st) [] [] [] = Inr r"
    using assms(4) ne by (cases "pnl_scan st (batch w st) [] [] []") (auto simp: pnl_def)
  have priced: "\<forall>(s, b) \<in> set st. priced w b"
    using scan_priced [OF assms(1) scan_ok] by simp
  have scan: "pnl_scan st (batch w st) [] [] [] = Inr (quotes w st, takes w st, drops w st)"
    using scan_batch [OF assms(1), of st w "[]" "[]" "[]"] assms(1) priced by simp
  have branch: "\<not> (signer w = None \<or> takes w st = [])" using assms(2,3) by simp
  obtain r2 st2 tr2 where ca: "close_all w (takes w st) [] (quotes w st) ?st1 ?tr1 = (r2, st2, tr2)"
    by (cases "close_all w (takes w st) [] (quotes w st) ?st1 ?tr1") auto
  note eq = pnl_live [OF assms(1) ne priced branch ca, of blk]
  obtain plan0 cp' where r2: "r2 = Inr (plan0, cp')"
    using eq assms(4) by (cases r2) auto
  have eq': "pnl w blk st = submit w blk plan0 cp' st2 tr2" using eq r2 by simp
  have ca': "close_all w (takes w st) [] (quotes w st) ?st1 ?tr1 = (Inr (plan0, cp'), st2, tr2)"
    using ca r2 by simp
  have rep: "reported = cp'"
    using assms(4) by (auto simp: eq' submit_def Let_def split: tx_result.splits if_splits)
  have cp': "cp' = filter (\<lambda>(k, v). k \<notin> fst ` set (sold w (takes w st))) (quotes w st)"
    using close_all_prices [OF ca'] .
  have plan: "swap_tokens (plan0 @ [Unwrap_weth MSG_SENDER 0]) = map snd (sold w (takes w st))"
    using close_all_plan [OF ca'] by (simp add: swap_tokens_def)
  have exec: "Execute (plan0 @ [Unwrap_weth MSG_SENDER 0]) (timestamp blk + 120) None
      \<in> set (trace (pnl w blk st))"
    by (auto simp: eq' submit_def Let_def split: tx_result.splits)
  have each: "\<forall>(s, b) \<in> set st.
      \<exists>c. spot_price (getReserves w (pair_address b)) = Inr c \<and>
        map_of reported s =
          (if take_profit w b \<and> balanceOf w (token_address b) \<noteq> 0 then None else Some c)"
  proof (clarify)
    fix s b assume mem: "(s, b) \<in> set st"
    then have "priced w b" using priced by auto
    then obtain c where c: "spot_price (getReserves w (pair_address b)) = Inr c"
      by (auto simp: priced_def pnl_now_def split: sum.splits)
    have "map_of reported s =
        (if s \<notin> fst ` set (sold w (takes w st)) then map_of (quotes w st) s else None)"
      unfolding rep cp' by (rule map_of_filter_keys)
    then have "map_of reported s =
        (if take_profit w b \<and> balanceOf w (token_address b) \<noteq> 0 then None else Some c)"
      using sold_keys [OF assms(1) mem, of w] quotes_lookup [OF assms(1) mem c] by simp
    with c show "\<exists>c. spot_price (getReserves w (pair_address b)) = Inr c \<and>
        map_of reported s =
          (if take_profit w b \<and> balanceOf w (token_address b) \<noteq> 0 then None else Some c)"
      by blast
  qed
  show ?thesis using scan exec plan rep cp' each by blast
qed

theorem pnl_returned_prices_witness:
  "distinct (map fst three_positions) \<and>
   signer exit_world = Some ''0xME'' \<and>
   takes exit_world three_positions = [(''MEME'', ''0xMEME''), (''GONE'', ''0xGONE'')] \<and>
   drops exit_world three_positions = [''RUG''] \<and>
   sold exit_world (takes exit_world three_positions) = [(''MEME'', ''0xMEME'')] \<and>
   result (pnl exit_world first_block three_positions) =
     Inr (Some [(''GONE'', moon_quote), (''RUG'', crash_quote)]) \<and>
   Execute exit_plan 1700000132 None \<in> set (trace (pnl exit_world first_block three_positions)) \<and>
   swap_tokens exit_plan = [''0xMEME'']"
proof -
  have t: "takes exit_world three_positions = [(''MEME'', ''0xMEME''), (''GONE'', ''0xGONE'')]"
    by (simp add: takes_def take_profit_def pnl_now_def handler_eval world_defs value_defs
        float_facts)
  have d: "drops exit_world three_positions = [''RUG'']"
    by (simp add: drops_def rug_def pnl_now_def handler_eval world_defs value_defs float_facts)
  have s: "sold exit_world (takes exit_world three_positions) = [(''MEME'', ''0xMEME'')]"
    unfolding t sold_def by (simp add: world_defs)
  have k: "distinct (map fst three_positions)" by (simp add: three_positions_def)
  have g: "signer exit_world \<noteq> None" by (simp add: world_defs)
  have n: "takes exit_world three_positions \<noteq> []" by (simp add: t)
  have r: "result (pnl exit_world first_block three_positions) =
      Inr (Some [(''GONE'', moon_quote), (''RUG'', crash_quote)])"
    by (simp add: pnl_exit)
  show ?thesis
    using pnl_returned_prices [OF k g n r] t d s k r
    by (simp add: pnl_exit swap_tokens_def exit_plan_def) (simp add: world_defs)
qed

end
